theory Spec2Isabelle
  imports Complex_Main "HOL-Library.AList"
begin

section \<open>Food inventory backend: data model\<close>

text \<open>
  The repository is an Express application over one MongoDB collection. Three
  versions of the server are in the sources: \<^verbatim>\<open>server.js\<close> (database
  \<^verbatim>\<open>foodInventory\<close>, with the PUT route that updates a quantity) and the two
  later versions that use the database \<^verbatim>\<open>foodInventory1\<close> (with the PATCH
  route that updates an expiry date; the first of them also registers a
  delete-all route). The route handlers are anonymous functions; each is named
  here after its verb and path.

  A value of a JSON request body, or of a stored field, is a JavaScript
  primitive. \<open>JUndefined\<close> is the value of a key that the body does not have.
  A number is a finite double; the handlers only compare it with zero and
  store it, so it is read as the real number it denotes. Arrays and nested
  objects are not modelled.
\<close>

datatype jsval = JUndefined | JNull | JBool bool | JNum real | JStr string

text \<open>JavaScript's truthiness, as \<^verbatim>\<open>x ? a : b\<close> and \<^verbatim>\<open>!x\<close> test it.\<close>

fun truthy :: "jsval \<Rightarrow> bool" where
  "truthy JUndefined = False"
| "truthy JNull = False"
| "truthy (JBool b) = b"
| "truthy (JNum r) = (r \<noteq> 0)"
| "truthy (JStr s) = (s \<noteq> [])"

text \<open>
  \<^verbatim>\<open>String.prototype.trim\<close>. A string is the list of its code units, and
  a character of the model is a code unit below 256, that is a character of
  Latin-1; a string with a code unit from 256 on is outside the type. Of the
  white space and line terminators that \<^verbatim>\<open>trim\<close> removes, those below 256
  are TAB, LF, VT, FF, CR, the space and the no-break space U+00A0.
\<close>

definition isWhiteSpace :: "char \<Rightarrow> bool" where
  "isWhiteSpace c =
     (c = CHR '' '' \<or> c = CHR 0x09 \<or> c = CHR 0x0A \<or> c = CHR 0x0B \<or> c = CHR 0x0C \<or>
      c = CHR 0x0D \<or> c = CHR 0xA0)"

definition trim :: "string \<Rightarrow> string" where
  "trim s = rev (dropWhile isWhiteSpace (rev (dropWhile isWhiteSpace s)))"

text \<open>
  An \<^verbatim>\<open>ObjectId\<close> is the key of a stored document. The constructor
  \<^verbatim>\<open>new ObjectId(id)\<close> belongs to the MongoDB driver, not to the repository:
  every handler below takes it as the parameter \<open>new_ObjectId\<close>, which gives
  \<open>None\<close> where the constructor throws. \<^verbatim>\<open>ObjectId.isValid(id)\<close> is the
  driver's test that the constructor accepts \<open>id\<close>.
\<close>

type_synonym ObjectId = string

definition isValid :: "(string \<Rightarrow> ObjectId option) \<Rightarrow> string \<Rightarrow> bool" where
  "isValid new_ObjectId id' = (case new_ObjectId id' of None \<Rightarrow> False | Some oid \<Rightarrow> True)"

text \<open>
  The constructor of the current driver, used where a theorem is evaluated at
  a concrete request: a string of 24 hexadecimal digits, read without regard
  to the case of the letters.
\<close>

definition isHexDigit :: "char \<Rightarrow> bool" where
  "isHexDigit c = (c \<in> set ''0123456789abcdefABCDEF'')"

definition hexLower :: "char \<Rightarrow> char" where
  "hexLower c =
     (if c = CHR ''A'' then CHR ''a'' else if c = CHR ''B'' then CHR ''b''
      else if c = CHR ''C'' then CHR ''c'' else if c = CHR ''D'' then CHR ''d''
      else if c = CHR ''E'' then CHR ''e'' else if c = CHR ''F'' then CHR ''f'' else c)"

definition hexObjectId :: "string \<Rightarrow> ObjectId option" where
  "hexObjectId s =
     (if length s = 24 \<and> list_all isHexDigit s then Some (map hexLower s) else None)"

text \<open>
  A stored document. \<open>doc_id\<close> is the field \<^verbatim>\<open>_id\<close>. The add route stores
  \<open>name\<close> and \<open>brands\<close> as trimmed strings; the other fields hold whatever
  value the request carried.
\<close>

record doc =
  doc_id :: ObjectId
  name :: string
  ingredients :: jsval
  brands :: string
  quantity :: jsval
  categories :: jsval
  imageUrl :: jsval
  url :: jsval
  expiryDate :: jsval

text \<open>An entry of the inventory view: \<^verbatim>\<open>{ ...item, count: 1 }\<close>.\<close>

record view = doc +
  count :: nat

section \<open>The collection\<close>

text \<open>
  The collection is the list of its documents in scan order; an inserted
  document goes to the end. The operations are those of the driver that the
  handlers call, on a store that is reachable: the only failures in the model
  are the constructor of an identifier and the insertion under a key that is
  already there.

  The application builds its client with the option \<^verbatim>\<open>serverApi\<close> alone, so
  the driver encodes with its defaults: a key whose value is
  \<^verbatim>\<open>undefined\<close> is written as \<^verbatim>\<open>null\<close>. In a stored document
  \<open>JUndefined\<close> is therefore never the value of a key that was written: it
  stands for a key that the document does not have.
\<close>

fun bson :: "jsval \<Rightarrow> jsval" where
  "bson JUndefined = JNull"
| "bson v = v"

type_synonym collection = "doc list"

datatype js_error = TypeError | MongoError

text \<open>
  The document that \<open>insertOne\<close> is given is the object literal of the add
  route with the generated \<^verbatim>\<open>_id\<close>. The keys of that literal are
  \<^verbatim>\<open>name\<close>, \<^verbatim>\<open>ingredients\<close>, \<^verbatim>\<open>brands\<close>, \<^verbatim>\<open>quantity\<close>,
  \<^verbatim>\<open>categories\<close>, \<^verbatim>\<open>imageUrl\<close> and \<^verbatim>\<open>url\<close>: the value of each is
  encoded, and the literal has no key \<^verbatim>\<open>expiryDate\<close>, so neither has the
  stored document.
\<close>

definition bson_doc :: "doc \<Rightarrow> doc" where
  "bson_doc d =
     d\<lparr>ingredients := bson (ingredients d), quantity := bson (quantity d),
       categories := bson (categories d), imageUrl := bson (imageUrl d), url := bson (url d)\<rparr>"

definition insertOne :: "collection \<Rightarrow> doc \<Rightarrow> js_error + (ObjectId \<times> collection)" where
  "insertOne collection d =
     (if doc_id d \<in> set (map doc_id collection) then Inl MongoError
      else Inr (doc_id d, collection @ [bson_doc d]))"

definition findOne :: "collection \<Rightarrow> ObjectId \<Rightarrow> doc option" where
  "findOne collection oid = find (\<lambda>d. doc_id d = oid) collection"

definition find_toArray :: "collection \<Rightarrow> doc list" where
  "find_toArray collection = collection"

text \<open>\<open>deleteOne\<close> gives \<^verbatim>\<open>deletedCount\<close> and the collection left.\<close>

fun deleteOne :: "collection \<Rightarrow> ObjectId \<Rightarrow> nat \<times> collection" where
  "deleteOne [] oid = (0, [])"
| "deleteOne (d # ds) oid =
     (if doc_id d = oid then (1, ds)
      else (case deleteOne ds oid of (n, ds') \<Rightarrow> (n, d # ds')))"

text \<open>\<open>findOneAndDelete\<close> gives \<^verbatim>\<open>result.value\<close> and the collection left.\<close>

definition findOneAndDelete :: "collection \<Rightarrow> ObjectId \<Rightarrow> doc option \<times> collection" where
  "findOneAndDelete collection oid = (findOne collection oid, snd (deleteOne collection oid))"

definition deleteMany :: "collection \<Rightarrow> nat \<times> collection" where
  "deleteMany collection = (length collection, [])"

text \<open>
  \<open>updateOne\<close> applies a \<^verbatim>\<open>$set\<close> of one field to the first document with
  the key: \<open>field\<close> is the update of that field and \<open>v\<close> the value of the
  request, which the driver encodes. It gives \<^verbatim>\<open>matchedCount\<close>,
  \<^verbatim>\<open>modifiedCount\<close> and the collection left.
\<close>

fun updateOne ::
  "collection \<Rightarrow> ObjectId \<Rightarrow> ((jsval \<Rightarrow> jsval) \<Rightarrow> doc \<Rightarrow> doc) \<Rightarrow> jsval \<Rightarrow>
     nat \<times> nat \<times> collection" where
  "updateOne [] oid field v = (0, 0, [])"
| "updateOne (d # ds) oid field v =
     (if doc_id d = oid
      then (1, if field (\<lambda>old. bson v) d = d then 0 else 1, field (\<lambda>old. bson v) d # ds)
      else (case updateOne ds oid field v of (m, n, ds') \<Rightarrow> (m, n, d # ds')))"

section \<open>Responses\<close>

record missingFields =
  missing_name :: bool
  missing_brands :: bool
  missing_quantity :: bool

datatype resp_body =
    ErrorBody string
  | MessageBody string
  | MissingBody string missingFields
  | AddedBody string "doc option"
  | ItemBody doc
  | InventoryBody "view list"

type_synonym response = "nat \<times> resp_body"

section \<open>GET /api/food/inventory\<close>

text \<open>
  The key of the reduction is the template literal
  \<^verbatim>\<open>`${item.name}-${item.brands}`\<close>. The accumulator is a JavaScript object:
  its keys all contain a hyphen, so none is an array index and none is a
  property of \<^verbatim>\<open>Object.prototype\<close>, and \<^verbatim>\<open>Object.values\<close> lists the entries
  in the order in which the keys were first set. That is an association list
  in which a new key goes to the end and a known key is updated in place.
\<close>

definition key_of :: "'a doc_scheme \<Rightarrow> string" where
  "key_of item = name item @ ''-'' @ brands item"

definition reducer :: "(string \<times> view) list \<Rightarrow> doc \<Rightarrow> (string \<times> view) list" where
  "reducer acc item =
     (let key = key_of item in
      case map_of acc key of
        Some e \<Rightarrow> AList.update key (e\<lparr>count := count e + 1\<rparr>) acc
      | None \<Rightarrow> AList.update key (doc.extend item (view.fields 1)) acc)"

definition productCounts :: "doc list \<Rightarrow> (string \<times> view) list" where
  "productCounts inventory = foldl reducer [] inventory"

definition aggregatedInventory :: "doc list \<Rightarrow> view list" where
  "aggregatedInventory inventory = map snd (productCounts inventory)"

definition get_food_inventory :: "collection \<Rightarrow> response" where
  "get_food_inventory collection =
     (200, InventoryBody (aggregatedInventory (find_toArray collection)))"

section \<open>POST /api/food/add\<close>

text \<open>
  \<^verbatim>\<open>x ? x.trim() : ''\<close>: a truthy value that is not a string has no method
  \<^verbatim>\<open>trim\<close>, and the call throws a \<^verbatim>\<open>TypeError\<close> outside the handler's
  \<^verbatim>\<open>try\<close>.
\<close>

definition trimmed :: "jsval \<Rightarrow> js_error + string" where
  "trimmed x =
     (if truthy x then (case x of JStr s \<Rightarrow> Inr (trim s) | _ \<Rightarrow> Inl TypeError)
      else Inr [])"

text \<open>
  The handler of \<^verbatim>\<open>server.js\<close>. \<open>newId\<close> is the identifier that the driver
  generates for the inserted document; the body is the parsed JSON object.
  This version does not read \<^verbatim>\<open>expiryDate\<close>, so the stored document has
  none.
\<close>

definition post_food_add ::
  "ObjectId \<Rightarrow> collection \<Rightarrow> (string \<Rightarrow> jsval) \<Rightarrow> js_error + (response \<times> collection)" where
  "post_food_add newId collection body =
     (case trimmed (body ''brands'') of
        Inl e \<Rightarrow> Inl e
      | Inr trimmedBrands \<Rightarrow>
     (case trimmed (body ''name'') of
        Inl e \<Rightarrow> Inl e
      | Inr trimmedName \<Rightarrow>
     (case trimmed (body ''quantity'') of
        Inl e \<Rightarrow> Inl e
      | Inr trimmedQuantity \<Rightarrow>
          if trimmedName = [] \<or> trimmedBrands = [] \<or> trimmedQuantity = [] then
            Inr ((400, MissingBody ''Missing required fields''
                    \<lparr>missing_name = (trimmedName \<noteq> []),
                     missing_brands = (trimmedBrands \<noteq> []),
                     missing_quantity = (trimmedQuantity \<noteq> [])\<rparr>), collection)
          else
            (case insertOne collection
                    \<lparr>doc_id = newId, name = trimmedName, ingredients = body ''ingredients'',
                     brands = trimmedBrands, quantity = JStr trimmedQuantity,
                     categories = body ''categories'', imageUrl = body ''imageUrl'',
                     url = body ''url'', expiryDate = JUndefined\<rparr> of
               Inl e \<Rightarrow> Inr ((500, ErrorBody ''Failed to add food to inventory''), collection)
             | Inr (insertedId, collection') \<Rightarrow>
                 Inr ((201, AddedBody ''Food added to inventory successfully''
                              (findOne collection' insertedId)), collection')))))"

section \<open>GET /api/food/:id\<close>

text \<open>The same handler in all three versions.\<close>

definition get_food_id :: "(string \<Rightarrow> ObjectId option) \<Rightarrow> collection \<Rightarrow> string \<Rightarrow> response" where
  "get_food_id new_ObjectId collection id' =
     (case new_ObjectId id' of
        None \<Rightarrow> (500, ErrorBody ''Failed to fetch product'')
      | Some oid \<Rightarrow>
          (case findOne collection oid of
             None \<Rightarrow> (404, ErrorBody ''Product not found'')
           | Some item \<Rightarrow> (200, ItemBody item)))"

section \<open>DELETE /api/food/delete/:id\<close>

text \<open>
  The handler of the two later versions, which tests the identifier first.
  (That of \<^verbatim>\<open>server.js\<close> has no such test.)
\<close>

definition delete_food_delete_id ::
  "(string \<Rightarrow> ObjectId option) \<Rightarrow> collection \<Rightarrow> string \<Rightarrow> response \<times> collection" where
  "delete_food_delete_id new_ObjectId collection id' =
     (if isValid new_ObjectId id' then
        (case new_ObjectId id' of
           None \<Rightarrow> ((500, ErrorBody ''Failed to delete product''), collection)
         | Some oid \<Rightarrow>
             (case findOneAndDelete collection oid of
                (None, collection') \<Rightarrow> ((404, ErrorBody ''Product not found''), collection')
              | (Some v, collection') \<Rightarrow>
                  ((200, MessageBody ''Product deleted successfully''), collection')))
      else ((400, ErrorBody ''Invalid product ID''), collection))"

section \<open>DELETE /api/food/delete/all\<close>

definition delete_food_delete_all :: "collection \<Rightarrow> response \<times> collection" where
  "delete_food_delete_all collection =
     (case deleteMany collection of
        (deletedCount, collection') \<Rightarrow>
          if deletedCount = 0 then ((404, ErrorBody ''No products found to delete''), collection')
          else ((200, MessageBody ''All products deleted successfully''), collection'))"

section \<open>PUT /api/food/update/:id\<close>

text \<open>
  The body's \<^verbatim>\<open>quantity\<close> is a JSON number, or the body has none: \<open>None\<close> is
  the \<^verbatim>\<open>undefined\<close> that the destructuring then gives. JSON values of other
  types, which \<^verbatim>\<open><\<close> would first convert to a number, are not modelled.
  \<^verbatim>\<open>undefined < 0\<close> and \<^verbatim>\<open>undefined === 0\<close> are both false.
\<close>

definition lt_zero :: "real option \<Rightarrow> bool" where
  "lt_zero quantity' = (case quantity' of None \<Rightarrow> False | Some r \<Rightarrow> r < 0)"

definition is_zero :: "real option \<Rightarrow> bool" where
  "is_zero quantity' = (case quantity' of None \<Rightarrow> False | Some r \<Rightarrow> r = 0)"

definition js_of :: "real option \<Rightarrow> jsval" where
  "js_of quantity' = (case quantity' of None \<Rightarrow> JUndefined | Some r \<Rightarrow> JNum r)"

definition put_food_update_id ::
  "(string \<Rightarrow> ObjectId option) \<Rightarrow> collection \<Rightarrow> string \<Rightarrow> real option \<Rightarrow> response \<times> collection" where
  "put_food_update_id new_ObjectId collection id' quantity' =
     (if lt_zero quantity' then ((400, ErrorBody ''Quantity cannot be negative''), collection)
      else if is_zero quantity' then
        (case new_ObjectId id' of
           None \<Rightarrow> ((500, ErrorBody ''Failed to update product quantity''), collection)
         | Some oid \<Rightarrow>
             (case deleteOne collection oid of
                (deletedCount, collection') \<Rightarrow>
                  if deletedCount = 0
                  then ((404, ErrorBody ''Product not found to delete''), collection')
                  else ((200, MessageBody ''Product deleted due to quantity being 0''),
                        collection')))
      else
        (case new_ObjectId id' of
           None \<Rightarrow> ((500, ErrorBody ''Failed to update product quantity''), collection)
         | Some oid \<Rightarrow>
             (case updateOne collection oid quantity_update (js_of quantity') of
                (matchedCount, modifiedCount, collection') \<Rightarrow>
                  if matchedCount = 0 then ((404, ErrorBody ''Product not found''), collection')
                  else ((200, MessageBody ''Product quantity updated''), collection'))))"

section \<open>PATCH /api/food/update/:id\<close>

definition patch_food_update_id ::
  "(string \<Rightarrow> ObjectId option) \<Rightarrow> collection \<Rightarrow> string \<Rightarrow> jsval \<Rightarrow> response \<times> collection" where
  "patch_food_update_id new_ObjectId collection id' expiryDate' =
     (if truthy expiryDate' then
        (case new_ObjectId id' of
           None \<Rightarrow> ((500, ErrorBody ''Failed to update expiry date''), collection)
         | Some oid \<Rightarrow>
             (case updateOne collection oid expiryDate_update expiryDate' of
                (matchedCount, modifiedCount, collection') \<Rightarrow>
                  if modifiedCount = 0
                  then ((404, ErrorBody ''Product not found or expiry date is the same''),
                        collection')
                  else ((200, MessageBody ''Expiry date updated successfully''), collection')))
      else ((400, ErrorBody ''Expiry date is required''), collection))"

section \<open>Routing\<close>

text \<open>
  Express tries the routes in the order in which the application registered
  them and runs the handler of the first whose verb and path pattern match;
  no handler of this application passes the request on. A request path is
  the list of its segments; a parameter such as \<^verbatim>\<open>:id\<close> matches one
  non-empty segment. The table is that of the version which registers the
  delete-all route, in its order of registration.
\<close>

datatype verb = GET | POST | PUT | PATCH | DELETE

datatype segment = Lit string | Param

datatype handler =
  Search | Add | Inventory | DeleteById | GetById | UpdateExpiry | DeleteAll

fun match_path :: "segment list \<Rightarrow> string list \<Rightarrow> string list option" where
  "match_path [] [] = Some []"
| "match_path (Lit l # ps) (s # ss) = (if l = s then match_path ps ss else None)"
| "match_path (Param # ps) (s # ss) =
     (if s = [] then None
      else (case match_path ps ss of None \<Rightarrow> None | Some params \<Rightarrow> Some (s # params)))"
| "match_path ps ss = None"

fun dispatch ::
  "(verb \<times> segment list \<times> handler) list \<Rightarrow> verb \<Rightarrow> string list \<Rightarrow>
     (handler \<times> string list) option" where
  "dispatch [] m path = None"
| "dispatch ((m', pattern, h) # routes) m path =
     (if m' = m then
        (case match_path pattern path of
           Some params \<Rightarrow> Some (h, params)
         | None \<Rightarrow> dispatch routes m path)
      else dispatch routes m path)"

definition routes :: "(verb \<times> segment list \<times> handler) list" where
  "routes =
     [(GET, [Lit ''api'', Lit ''food'', Lit ''search''], Search),
      (POST, [Lit ''api'', Lit ''food'', Lit ''add''], Add),
      (GET, [Lit ''api'', Lit ''food'', Lit ''inventory''], Inventory),
      (DELETE, [Lit ''api'', Lit ''food'', Lit ''delete'', Param], DeleteById),
      (GET, [Lit ''api'', Lit ''food'', Param], GetById),
      (PATCH, [Lit ''api'', Lit ''food'', Lit ''update'', Param], UpdateExpiry),
      (DELETE, [Lit ''api'', Lit ''food'', Lit ''delete'', Lit ''all''], DeleteAll)]"

text \<open>
  What the application answers to a DELETE request, and the collection it
  leaves; \<open>None\<close> where no route of the table matches.
\<close>

definition app_delete ::
  "(string \<Rightarrow> ObjectId option) \<Rightarrow> collection \<Rightarrow> string list \<Rightarrow> (response \<times> collection) option" where
  "app_delete new_ObjectId collection path =
     (case dispatch routes DELETE path of
        Some (DeleteById, [id']) \<Rightarrow> Some (delete_food_delete_id new_ObjectId collection id')
      | Some (DeleteAll, params) \<Rightarrow> Some (delete_food_delete_all collection)
      | _ \<Rightarrow> None)"

section \<open>Sample documents and request bodies\<close>

text \<open>The concrete inputs at which the theorems below are evaluated.\<close>

definition milk_1L :: doc where
  "milk_1L = \<lparr>doc_id = ''507f1f77bcf86cd799439011'', name = ''Milk'', ingredients = JUndefined,
     brands = ''Acme'', quantity = JStr ''1L'', categories = JUndefined, imageUrl = JUndefined,
     url = JUndefined, expiryDate = JUndefined\<rparr>"

definition milk_2L :: doc where
  "milk_2L = \<lparr>doc_id = ''507f1f77bcf86cd799439012'', name = ''Milk'', ingredients = JUndefined,
     brands = ''Acme'', quantity = JStr ''2L'', categories = JUndefined, imageUrl = JUndefined,
     url = JUndefined, expiryDate = JUndefined\<rparr>"

definition coca_cola :: doc where
  "coca_cola = \<lparr>doc_id = ''507f1f77bcf86cd799439013'', name = ''Coca-Cola'',
     ingredients = JUndefined, brands = ''Zero'', quantity = JStr ''33cl'',
     categories = JUndefined, imageUrl = JUndefined, url = JUndefined, expiryDate = JUndefined\<rparr>"

definition coca :: doc where
  "coca = \<lparr>doc_id = ''507f1f77bcf86cd799439014'', name = ''Coca'',
     ingredients = JUndefined, brands = ''Cola-Zero'', quantity = JStr ''1L'',
     categories = JUndefined, imageUrl = JUndefined, url = JUndefined, expiryDate = JUndefined\<rparr>"

definition milk_lower :: doc where
  "milk_lower = \<lparr>doc_id = ''507f1f77bcf86cd799439015'', name = ''milk'', ingredients = JUndefined,
     brands = ''Acme'', quantity = JStr ''1L'', categories = JUndefined, imageUrl = JUndefined,
     url = JUndefined, expiryDate = JUndefined\<rparr>"

definition milk_added :: doc where
  "milk_added = \<lparr>doc_id = ''507f1f77bcf86cd799439016'', name = ''Milk'', ingredients = JNull,
     brands = ''Acme'', quantity = JStr ''1L'', categories = JNull, imageUrl = JNull,
     url = JNull, expiryDate = JUndefined\<rparr>"

definition milk_body :: "string \<Rightarrow> jsval" where
  "milk_body =
     (\<lambda>k. if k = ''name'' then JStr '' Milk '' else if k = ''brands'' then JStr ''Acme''
          else if k = ''quantity'' then JStr ''1L'' else JUndefined)"

definition no_name_body :: "string \<Rightarrow> jsval" where
  "no_name_body =
     (\<lambda>k. if k = ''name'' then JStr [] else if k = ''brands'' then JStr ''Acme''
          else if k = ''quantity'' then JStr ''1L'' else JUndefined)"

section \<open>Properties of the collection\<close>

lemma findOne_Some:
  "findOne collection oid = Some item \<Longrightarrow>
     \<exists>pre post. collection = pre @ item # post \<and> findOne pre oid = None \<and> doc_id item = oid"
proof (induction collection)
  case Nil
  then show ?case by (simp add: findOne_def)
next
  case (Cons d ds)
  show ?case
  proof (cases "doc_id d = oid")
    case True
    with Cons.prems
    have "d # ds = [] @ item # ds \<and> findOne [] oid = None \<and> doc_id item = oid"
      by (simp add: findOne_def)
    then show ?thesis by blast
  next
    case False
    with Cons.prems have "findOne ds oid = Some item" by (simp add: findOne_def)
    from Cons.IH [OF this] obtain pre post where
      "ds = pre @ item # post" "findOne pre oid = None" "doc_id item = oid" by blast
    with False
    have "d # ds = (d # pre) @ item # post \<and> findOne (d # pre) oid = None \<and> doc_id item = oid"
      by (simp add: findOne_def)
    then show ?thesis by blast
  qed
qed

lemma findOne_append:
  "findOne pre oid = None \<Longrightarrow> findOne (pre @ ds) oid = findOne ds oid"
  by (induction pre) (auto simp: findOne_def)

lemma deleteOne_append:
  "findOne pre oid = None \<Longrightarrow> doc_id item = oid \<Longrightarrow>
     deleteOne (pre @ item # post) oid = (1, pre @ post)"
  by (induction pre) (auto simp: findOne_def split: if_splits)

lemma deleteOne_missing:
  "findOne collection oid = None \<Longrightarrow> deleteOne collection oid = (0, collection)"
  by (induction collection) (auto simp: findOne_def split: if_splits)

lemma updateOne_append:
  "findOne pre oid = None \<Longrightarrow> doc_id item = oid \<Longrightarrow>
     updateOne (pre @ item # post) oid field v =
       (1, if field (\<lambda>old. bson v) item = item then 0 else 1,
        pre @ field (\<lambda>old. bson v) item # post)"
  by (induction pre) (auto simp: findOne_def split: if_splits)

lemma updateOne_missing:
  "findOne collection oid = None \<Longrightarrow> updateOne collection oid field v = (0, 0, collection)"
  by (induction collection) (auto simp: findOne_def split: if_splits)

lemma remove1_append_first:
  "findOne pre (doc_id item) = None \<Longrightarrow> remove1 item (pre @ item # post) = pre @ post"
proof -
  assume "findOne pre (doc_id item) = None"
  then have "item \<notin> set pre"
    by (auto simp: findOne_def find_None_iff)
  then show ?thesis by (simp add: remove1_append)
qed

lemma findOne_distinct_removed:
  assumes "distinct (map doc_id (pre @ item # post))" and "doc_id item = oid"
  shows "findOne (pre @ post) oid = None"
proof -
  from assms have "oid \<notin> doc_id ` set pre" and "oid \<notin> doc_id ` set post"
    by auto
  then have "\<not> (\<exists>d. d \<in> set (pre @ post) \<and> doc_id d = oid)"
    by auto
  then show ?thesis
    unfolding findOne_def find_None_iff .
qed

lemma hexObjectId_sample:
  "hexObjectId ''507f1f77bcf86cd799439011'' = Some ''507f1f77bcf86cd799439011''"
  by (simp add: hexObjectId_def isHexDigit_def hexLower_def)

section \<open>Properties of the inventory view\<close>

lemma extend_count_update:
  "(doc.extend d (view.fields m))\<lparr>count := n\<rparr> = doc.extend d (view.fields n)"
  by (simp add: doc.defs view.defs)

lemma count_extend: "count (doc.extend d (view.fields n)) = n"
  by (simp add: doc.defs view.defs)

lemma name_extend: "name (doc.extend d (view.fields n)) = name d"
  by (simp add: doc.defs view.defs)

lemma brands_extend: "brands (doc.extend d (view.fields n)) = brands d"
  by (simp add: doc.defs view.defs)

lemma truncate_extend: "doc.truncate (doc.extend d (view.fields n)) = (d::doc)"
  by (simp add: doc.defs view.defs)

text \<open>The keys of the accumulator stay in the order of their first occurrence.\<close>

lemma reducer_keys:
  "map fst (reducer acc item) =
     (if key_of item \<in> set (map fst acc) then map fst acc else map fst acc @ [key_of item])"
  by (simp add: reducer_def Let_def update_keys split: option.split)

lemma reducer_distinct:
  "distinct (map fst acc) \<Longrightarrow> distinct (map fst (reducer acc item))"
  by (simp add: reducer_keys)

lemma reducer_lookup:
  "map_of (reducer acc item) k =
     (if k = key_of item
      then Some (case map_of acc k of
                   Some e \<Rightarrow> e\<lparr>count := count e + 1\<rparr>
                 | None \<Rightarrow> doc.extend item (view.fields 1))
      else map_of acc k)"
  by (simp add: reducer_def Let_def update_conv' split: option.split)

lemma foldl_reducer_distinct:
  "distinct (map fst acc) \<Longrightarrow> distinct (map fst (foldl reducer acc inventory))"
  by (induction inventory arbitrary: acc) (simp_all add: reducer_distinct)

text \<open>
  The entry under a key string: the first record with that key string, and
  the number of records with it.
\<close>

lemma foldl_reducer_lookup:
  "map_of (foldl reducer acc inventory) k =
     (case map_of acc k of
        Some e \<Rightarrow> Some (e\<lparr>count := count e + length (filter (\<lambda>d. key_of d = k) inventory)\<rparr>)
      | None \<Rightarrow>
          (case find (\<lambda>d. key_of d = k) inventory of
             None \<Rightarrow> None
           | Some d \<Rightarrow>
               Some (doc.extend d (view.fields (length (filter (\<lambda>d. key_of d = k) inventory))))))"
proof (induction inventory arbitrary: acc)
  case Nil
  show ?case by (simp split: option.split)
next
  case (Cons item inventory)
  show ?case
  proof (cases "key_of item = k")
    case True
    then show ?thesis
      by (simp add: Cons.IH reducer_lookup extend_count_update count_extend split: option.split)
  next
    case False
    then show ?thesis
      by (simp add: Cons.IH reducer_lookup split: option.split)
  qed
qed

lemma productCounts_distinct: "distinct (map fst (productCounts inventory))"
  by (simp add: productCounts_def foldl_reducer_distinct)

lemma productCounts_lookup:
  "map_of (productCounts inventory) k =
     (case find (\<lambda>d. key_of d = k) inventory of
        None \<Rightarrow> None
      | Some d \<Rightarrow> Some (doc.extend d (view.fields (length (filter (\<lambda>d. key_of d = k) inventory)))))"
  by (simp add: productCounts_def foldl_reducer_lookup)

lemma filter_key_single:
  "distinct (map fst al) \<Longrightarrow> map_of al k = Some v \<Longrightarrow> filter (\<lambda>p. fst p = k) al = [(k, v)]"
proof (induction al)
  case Nil
  then show ?case by simp
next
  case (Cons p al)
  show ?case
  proof (cases "fst p = k")
    case True
    with Cons.prems have "k \<notin> fst ` set al" by simp
    then have "filter (\<lambda>p. fst p = k) al = []"
      by (force simp: filter_empty_conv)
    with True Cons.prems show ?thesis by (cases p) auto
  next
    case False
    with Cons show ?thesis by auto
  qed
qed

section \<open>The claims\<close>

subsection \<open>Inventory view\<close>

text \<open>
  C1. The claim: one view-entry per distinct pair of name and brands, with the
  number of records of that pair as its count. The key of the reduction joins
  the two strings with a hyphen, which either string may contain, so two
  different pairs can have the same key. Evaluated at the records
  (Coca-Cola, Zero) and (Coca, Cola-Zero): the view has a single entry, that of
  the first record, with count 2, and no entry for the second pair.
\<close>

theorem inventory_key_collision:
  "aggregatedInventory [coca_cola, coca] = [doc.extend coca_cola (view.fields 2)] \<and>
   name coca_cola = ''Coca-Cola'' \<and> brands coca_cola = ''Zero'' \<and>
   name coca = ''Coca'' \<and> brands coca = ''Cola-Zero''"
  by (simp add: aggregatedInventory_def productCounts_def reducer_def key_of_def
      coca_cola_def coca_def doc.defs view.defs)

text \<open>
  The key is compared as it is written: two records that differ only in the
  case of a letter of the name are two entries of the view, each with count 1.
\<close>

lemma inventory_case_sensitive:
  "aggregatedInventory [milk_1L, milk_lower] =
     [doc.extend milk_1L (view.fields 1), doc.extend milk_lower (view.fields 1)]"
  by (simp add: aggregatedInventory_def productCounts_def reducer_def key_of_def
      milk_1L_def milk_lower_def doc.defs view.defs)

text \<open>
  C2, as amended. For every pair of name and brands that occurs in the list and
  whose key string is the key of no record of another pair, the view has
  exactly one entry with that name and brands; its count is the number of
  records of the pair, which is at least 1, and its other fields are those of
  the first record of the pair in scan order.
\<close>

theorem inventory_entry_first_record:
  assumes "find (\<lambda>d. name d = n \<and> brands d = b) inventory = Some f"
    and "\<forall>d\<in>set inventory. key_of d = n @ ''-'' @ b \<longrightarrow> name d = n \<and> brands d = b"
  shows "\<exists>e. filter (\<lambda>e. name e = n \<and> brands e = b) (aggregatedInventory inventory) = [e] \<and>
             1 \<le> count e \<and>
             count e = length (filter (\<lambda>d. name d = n \<and> brands d = b) inventory) \<and>
             doc.truncate e = f"
proof -
  define k where "k = n @ ''-'' @ b"
  let ?c = "length (filter (\<lambda>d. name d = n \<and> brands d = b) inventory)"
  let ?e = "doc.extend f (view.fields ?c)"
  have same: "\<And>d. d \<in> set inventory \<Longrightarrow> (key_of d = k) = (name d = n \<and> brands d = b)"
    using assms(2) by (auto simp: key_of_def k_def)
  have first: "find (\<lambda>d. key_of d = k) inventory = Some f"
    using assms(1) same by (simp cong: find_cong)
  have cnt: "length (filter (\<lambda>d. key_of d = k) inventory) = ?c"
    using same by (simp cong: filter_cong)
  have look: "map_of (productCounts inventory) k = Some ?e"
    by (simp add: productCounts_lookup first cnt)
  have one: "filter (\<lambda>p. fst p = k) (productCounts inventory) = [(k, ?e)]"
    by (rule filter_key_single [OF productCounts_distinct look])
  have entry: "(name (snd p) = n \<and> brands (snd p) = b) = (fst p = k)"
    if "p \<in> set (productCounts inventory)" for p
  proof -
    from that have "map_of (productCounts inventory) (fst p) = Some (snd p)"
      by (simp add: productCounts_distinct)
    then obtain g where g: "find (\<lambda>d. key_of d = fst p) inventory = Some g"
      and p: "snd p = doc.extend g (view.fields (length (filter (\<lambda>d. key_of d = fst p) inventory)))"
      by (auto simp: productCounts_lookup split: option.splits)
    from g have "g \<in> set inventory" and "key_of g = fst p"
      by (auto simp: find_Some_iff)
    with same [of g] p show ?thesis
      by (auto simp: name_extend brands_extend key_of_def k_def)
  qed
  have "filter (\<lambda>e. name e = n \<and> brands e = b) (aggregatedInventory inventory) =
        map snd (filter (\<lambda>p. fst p = k) (productCounts inventory))"
    unfolding aggregatedInventory_def filter_map o_def
    using entry by (simp cong: filter_cong)
  then have "filter (\<lambda>e. name e = n \<and> brands e = b) (aggregatedInventory inventory) = [?e]"
    by (simp add: one)
  moreover have "1 \<le> ?c"
  proof -
    from assms(1) have "f \<in> set inventory" and "name f = n \<and> brands f = b"
      by (auto simp: find_Some_iff)
    then have "f \<in> set (filter (\<lambda>d. name d = n \<and> brands d = b) inventory)" by simp
    then have "0 < length (filter (\<lambda>d. name d = n \<and> brands d = b) inventory)"
      by (rule length_pos_if_in_set)
    then show ?thesis by linarith
  qed
  ultimately show ?thesis
    by (simp add: count_extend truncate_extend)
qed

theorem inventory_entry_first_record_witness:
  "find (\<lambda>d. name d = ''Milk'' \<and> brands d = ''Acme'') [milk_1L, milk_2L] = Some milk_1L \<and>
   name milk_1L = ''Milk'' \<and> brands milk_1L = ''Acme'' \<and>
   name milk_2L = ''Milk'' \<and> brands milk_2L = ''Acme'' \<and>
   (\<exists>e. filter (\<lambda>e. name e = ''Milk'' \<and> brands e = ''Acme'')
           (aggregatedInventory [milk_1L, milk_2L]) = [e] \<and>
        1 \<le> count e \<and>
        count e = length (filter (\<lambda>d. name d = ''Milk'' \<and> brands d = ''Acme'') [milk_1L, milk_2L]) \<and>
        doc.truncate e = milk_1L)"
proof -
  have h1: "find (\<lambda>d. name d = ''Milk'' \<and> brands d = ''Acme'') [milk_1L, milk_2L] = Some milk_1L"
    by (simp add: milk_1L_def)
  have h2: "\<forall>d\<in>set [milk_1L, milk_2L]. key_of d = ''Milk'' @ ''-'' @ ''Acme'' \<longrightarrow>
       name d = ''Milk'' \<and> brands d = ''Acme''"
    by (simp add: milk_1L_def milk_2L_def)
  have h3: "name milk_1L = ''Milk'' \<and> brands milk_1L = ''Acme'' \<and>
            name milk_2L = ''Milk'' \<and> brands milk_2L = ''Acme''"
    by (simp add: milk_1L_def milk_2L_def)
  from inventory_entry_first_record [OF h1 h2] h1 h3 show ?thesis by blast
qed

text \<open>
  C2 as stated fails: two records of the pair (Milk, Acme) with the quantities
  1L and 2L give one entry with count 2 that carries the quantity of the first
  record, not that of the last.
\<close>

theorem inventory_last_record_counterexample:
  "map quantity (aggregatedInventory [milk_1L, milk_2L]) = [JStr ''1L''] \<and>
   map count (aggregatedInventory [milk_1L, milk_2L]) = [2] \<and>
   quantity (last [milk_1L, milk_2L]) = JStr ''2L'' \<and>
   name (last [milk_1L, milk_2L]) = name milk_1L \<and>
   brands (last [milk_1L, milk_2L]) = brands milk_1L"
  by (simp add: aggregatedInventory_def productCounts_def reducer_def key_of_def
      milk_1L_def milk_2L_def doc.defs view.defs)

subsection \<open>Adding a product\<close>

text \<open>
  What the handler answers when all three required fields are strings or are
  absent and one of them is empty after trimming: status 400, and under
  \<^verbatim>\<open>missingFields\<close> each flag is true when the field is present.
\<close>

lemma post_food_add_missing:
  assumes "trimmed (body ''name'') = Inr n" and "trimmed (body ''brands'') = Inr b"
    and "trimmed (body ''quantity'') = Inr q"
    and "n = [] \<or> b = [] \<or> q = []"
  shows "post_food_add newId collection body =
           Inr ((400, MissingBody ''Missing required fields''
                        \<lparr>missing_name = (n \<noteq> []), missing_brands = (b \<noteq> []),
                         missing_quantity = (q \<noteq> [])\<rparr>), collection)"
  using assms(4) by (simp add: post_food_add_def assms(1-3))

text \<open>
  C3. The claim: status 400 and, under \<^verbatim>\<open>missingFields\<close>, a flag that is
  true exactly for the fields that are missing. Evaluated at the body with an
  empty name, the brands Acme and the quantity 1L: the status is 400, but the
  flag of the missing name is false and those of the two fields that are
  present are true.
\<close>

theorem post_food_add_flags_inverted:
  "post_food_add newId collection no_name_body =
     Inr ((400, MissingBody ''Missing required fields''
                  \<lparr>missing_name = False, missing_brands = True, missing_quantity = True\<rparr>),
          collection)"
  by (simp add: post_food_add_def trimmed_def no_name_body_def trim_def isWhiteSpace_def)

text \<open>
  C8. When name, brands and quantity are strings that are not empty after
  trimming, and the store accepts the generated identifier, the answer has
  status 201 and the collection gains one document: the trimmed name, brands
  and quantity, and the other values of the request as the store holds them.
  The item of the answer is what \<open>findOne\<close> reads back from the new collection
  under the inserted identifier, which is that stored document. It is not the
  literal that the handler built: where the request has no value for an
  optional key, the literal has \<^verbatim>\<open>undefined\<close> and the item has
  \<^verbatim>\<open>null\<close>.
\<close>

theorem post_food_add_stores_trimmed:
  assumes "body ''name'' = JStr n" and "body ''brands'' = JStr b" and "body ''quantity'' = JStr q"
    and "trim n \<noteq> []" and "trim b \<noteq> []" and "trim q \<noteq> []"
    and "newId \<notin> set (map doc_id collection)"
    and "stored = \<lparr>doc_id = newId, name = trim n, ingredients = bson (body ''ingredients''),
                     brands = trim b, quantity = JStr (trim q),
                     categories = bson (body ''categories''),
                     imageUrl = bson (body ''imageUrl''),
                     url = bson (body ''url''), expiryDate = JUndefined\<rparr>"
  shows "post_food_add newId collection body =
           Inr ((201, AddedBody ''Food added to inventory successfully'' (Some stored)),
                collection @ [stored]) \<and>
         findOne (collection @ [stored]) newId = Some stored"
proof -
  let ?literal = "\<lparr>doc_id = newId, name = trim n, ingredients = body ''ingredients'',
                    brands = trim b, quantity = JStr (trim q),
                    categories = body ''categories'', imageUrl = body ''imageUrl'',
                    url = body ''url'', expiryDate = JUndefined\<rparr>"
  have ne: "n \<noteq> []" "b \<noteq> []" "q \<noteq> []"
    using assms(4-6) by (auto simp: trim_def)
  have absent: "findOne collection newId = None"
    using assms(7) by (auto simp: findOne_def find_None_iff)
  have "findOne (collection @ [stored]) newId = findOne [stored] newId"
    by (rule findOne_append [OF absent])
  also have "\<dots> = Some stored"
    by (simp add: findOne_def assms(8))
  finally have found: "findOne (collection @ [stored]) newId = Some stored" .
  have enc: "bson_doc ?literal = stored"
    by (simp add: bson_doc_def assms(8))
  have ins: "insertOne collection ?literal = Inr (newId, collection @ [stored])"
    using assms(7) by (simp add: insertOne_def enc)
  have "post_food_add newId collection body =
           Inr ((201, AddedBody ''Food added to inventory successfully''
                        (findOne (collection @ [stored]) newId)),
                collection @ [stored])"
    using assms(4-6) ne
    by (simp add: post_food_add_def trimmed_def assms(1-3) ins)
  with found show ?thesis by simp
qed

theorem post_food_add_stores_trimmed_witness:
  "milk_body ''name'' = JStr '' Milk '' \<and> milk_body ''brands'' = JStr ''Acme'' \<and>
   milk_body ''quantity'' = JStr ''1L'' \<and> milk_body ''ingredients'' = JUndefined \<and>
   trim '' Milk '' = ''Milk'' \<and> trim ''Acme'' = ''Acme'' \<and> trim ''1L'' = ''1L'' \<and>
   ''507f1f77bcf86cd799439016'' \<notin> set (map doc_id [milk_1L]) \<and>
   post_food_add ''507f1f77bcf86cd799439016'' [milk_1L] milk_body =
     Inr ((201, AddedBody ''Food added to inventory successfully'' (Some milk_added)),
          [milk_1L, milk_added]) \<and>
   name milk_added = ''Milk'' \<and> ingredients milk_added = JNull"
proof -
  have b: "milk_body ''name'' = JStr '' Milk ''" "milk_body ''brands'' = JStr ''Acme''"
    "milk_body ''quantity'' = JStr ''1L''"
    by (simp_all add: milk_body_def)
  have u: "milk_body ''ingredients'' = JUndefined"
    by (simp add: milk_body_def)
  have t: "trim '' Milk '' = ''Milk''" "trim ''Acme'' = ''Acme''" "trim ''1L'' = ''1L''"
    by (simp_all add: trim_def isWhiteSpace_def)
  have t': "trim '' Milk '' \<noteq> []" "trim ''Acme'' \<noteq> []" "trim ''1L'' \<noteq> []"
    by (simp_all add: t)
  have fresh: "''507f1f77bcf86cd799439016'' \<notin> set (map doc_id [milk_1L])"
    by (simp add: milk_1L_def)
  have s: "milk_added = \<lparr>doc_id = ''507f1f77bcf86cd799439016'', name = trim '' Milk '',
                         ingredients = bson (milk_body ''ingredients''),
                         brands = trim ''Acme'', quantity = JStr (trim ''1L''),
                         categories = bson (milk_body ''categories''),
                         imageUrl = bson (milk_body ''imageUrl''),
                         url = bson (milk_body ''url''), expiryDate = JUndefined\<rparr>"
    by (simp add: milk_added_def t milk_body_def)
  have f: "name milk_added = ''Milk''" "ingredients milk_added = JNull"
    by (simp_all add: milk_added_def)
  from post_food_add_stores_trimmed [OF b t' fresh s] b u t fresh f show ?thesis by simp
qed

text \<open>
  A name that is a lone no-break space is empty after trimming, and the
  answer is 400.
\<close>

lemma post_food_add_nbsp_name:
  "post_food_add newId collection
     (\<lambda>k. if k = ''name'' then JStr [CHR 0xA0] else JStr ''x'') =
   Inr ((400, MissingBody ''Missing required fields''
                \<lparr>missing_name = False, missing_brands = True, missing_quantity = True\<rparr>),
        collection)"
  by (simp add: post_food_add_def trimmed_def trim_def isWhiteSpace_def)

subsection \<open>Reading one product\<close>

text \<open>
  An identifier that the constructor rejects: the exception is caught by the
  handler's \<^verbatim>\<open>catch\<close>, and the answer is 500 for every collection.
\<close>

lemma get_food_id_malformed:
  "new_ObjectId id' = None \<Longrightarrow>
     get_food_id new_ObjectId collection id' = (500, ErrorBody ''Failed to fetch product'')"
  by (simp add: get_food_id_def)

text \<open>The delete route of the later versions answers 400 to the same identifier.\<close>

lemma delete_food_delete_id_malformed:
  "new_ObjectId id' = None \<Longrightarrow>
     delete_food_delete_id new_ObjectId collection id' =
       ((400, ErrorBody ''Invalid product ID''), collection)"
  by (simp add: delete_food_delete_id_def isValid_def)

text \<open>
  C4. The claim: status 400 for an identifier that is not well formed, never
  404 or 500. Evaluated at the identifier \<^verbatim>\<open>xyz\<close>: the handler has no test
  of the identifier, and the answer is 500.
\<close>

theorem get_food_id_malformed_500:
  "get_food_id hexObjectId collection ''xyz'' = (500, ErrorBody ''Failed to fetch product'')"
  by (simp add: get_food_id_def hexObjectId_def)

subsection \<open>Deleting all products\<close>

text \<open>What the delete-all handler does when it runs.\<close>

lemma delete_food_delete_all_nonempty:
  "collection \<noteq> [] \<Longrightarrow>
     delete_food_delete_all collection =
       ((200, MessageBody ''All products deleted successfully''), [])"
  by (simp add: delete_food_delete_all_def deleteMany_def)

lemma delete_food_delete_all_empty:
  "delete_food_delete_all [] = ((404, ErrorBody ''No products found to delete''), [])"
  by (simp add: delete_food_delete_all_def deleteMany_def)

text \<open>
  The route of the delete-all handler is registered after the route
  \<^verbatim>\<open>/api/food/delete/:id\<close>, whose pattern matches the path
  \<^verbatim>\<open>/api/food/delete/all\<close> with the identifier \<^verbatim>\<open>all\<close>.
\<close>

lemma dispatch_delete_all:
  "dispatch routes DELETE [''api'', ''food'', ''delete'', ''all''] = Some (DeleteById, [''all''])"
  by (simp add: routes_def)

lemma match_path_literals:
  "match_path [Lit a, Lit b, Lit c, Lit d] path = Some params \<Longrightarrow> path = [a, b, c, d]"
proof -
  assume m: "match_path [Lit a, Lit b, Lit c, Lit d] path = Some params"
  then obtain s1 r1 where p1: "path = s1 # r1" by (cases path) auto
  with m have a: "s1 = a" and m1: "match_path [Lit b, Lit c, Lit d] r1 = Some params"
    by (auto split: if_splits)
  then obtain s2 r2 where p2: "r1 = s2 # r2" by (cases r1) auto
  with m1 have b: "s2 = b" and m2: "match_path [Lit c, Lit d] r2 = Some params"
    by (auto split: if_splits)
  then obtain s3 r3 where p3: "r2 = s3 # r3" by (cases r2) auto
  with m2 have c: "s3 = c" and m3: "match_path [Lit d] r3 = Some params"
    by (auto split: if_splits)
  then obtain s4 r4 where p4: "r3 = s4 # r4" by (cases r3) auto
  with m3 have d: "s4 = d" and m4: "match_path [] r4 = Some params"
    by (auto split: if_splits)
  then have "r4 = []" by (cases r4) auto
  with p1 p2 p3 p4 a b c d show ?thesis by simp
qed

text \<open>No request is dispatched to the delete-all handler.\<close>

lemma delete_all_unreachable: "dispatch routes m path \<noteq> Some (DeleteAll, params)"
proof
  assume d: "dispatch routes m path = Some (DeleteAll, params)"
  show False
  proof (cases "match_path [Lit ''api'', Lit ''food'', Lit ''delete'', Lit ''all''] path")
    case None
    with d show False
      by (cases m) (auto simp: routes_def split: option.splits)
  next
    case (Some ps)
    then have "path = [''api'', ''food'', ''delete'', ''all'']" by (rule match_path_literals)
    with d show False
      by (cases m) (auto simp: routes_def)
  qed
qed

lemma app_delete_all_invalid:
  "new_ObjectId ''all'' = None \<Longrightarrow>
     app_delete new_ObjectId collection [''api'', ''food'', ''delete'', ''all''] =
       Some ((400, ErrorBody ''Invalid product ID''), collection)"
  by (simp add: app_delete_def dispatch_delete_all delete_food_delete_id_malformed)

text \<open>
  C5. The claim: with N > 0 records the delete-all request answers 200 and
  leaves no record. Evaluated at a collection of one record: the request goes
  to the handler of \<^verbatim>\<open>/api/food/delete/:id\<close>, which answers 400 and leaves
  the record in the collection.
\<close>

theorem delete_all_request_shadowed:
  "app_delete hexObjectId [milk_1L] [''api'', ''food'', ''delete'', ''all''] =
     Some ((400, ErrorBody ''Invalid product ID''), [milk_1L])"
  by (simp add: app_delete_def routes_def delete_food_delete_id_def isValid_def hexObjectId_def)

subsection \<open>Updating a quantity\<close>

text \<open>
  C6. For a record that the collection holds under the identifier of the
  request (identifiers being unique in the collection), the PUT request with
  the quantity 0 answers 200 with the message of a deletion, leaves the
  collection without that record, and the GET request for the same identifier
  on the collection left answers 404.
\<close>

theorem put_zero_deletes:
  assumes "new_ObjectId id' = Some oid"
    and "findOne collection oid = Some item"
    and "distinct (map doc_id collection)"
  shows "put_food_update_id new_ObjectId collection id' (Some 0) =
           ((200, MessageBody ''Product deleted due to quantity being 0''),
            remove1 item collection) \<and>
         item \<notin> set (remove1 item collection) \<and>
         get_food_id new_ObjectId (remove1 item collection) id' =
           (404, ErrorBody ''Product not found'')"
proof -
  from findOne_Some [OF assms(2)] obtain pre post where
    c: "collection = pre @ item # post" and pre: "findOne pre oid = None" and oid: "doc_id item = oid"
    by blast
  have rm: "remove1 item collection = pre @ post"
    using pre oid by (simp add: c remove1_append_first)
  have gone: "findOne (pre @ post) oid = None"
    using assms(3) oid unfolding c by (rule findOne_distinct_removed)
  have "put_food_update_id new_ObjectId collection id' (Some 0) =
          ((200, MessageBody ''Product deleted due to quantity being 0''), pre @ post)"
    by (simp add: put_food_update_id_def lt_zero_def is_zero_def assms(1) c
        deleteOne_append [OF pre oid])
  moreover have "item \<notin> set (pre @ post)"
    using assms(3) unfolding c by auto
  moreover have "get_food_id new_ObjectId (pre @ post) id' = (404, ErrorBody ''Product not found'')"
    by (simp add: get_food_id_def assms(1) gone)
  ultimately show ?thesis by (simp add: rm)
qed

theorem put_zero_deletes_witness:
  "hexObjectId ''507f1f77bcf86cd799439011'' = Some ''507f1f77bcf86cd799439011'' \<and>
   findOne [milk_1L] ''507f1f77bcf86cd799439011'' = Some milk_1L \<and>
   distinct (map doc_id [milk_1L]) \<and>
   put_food_update_id hexObjectId [milk_1L] ''507f1f77bcf86cd799439011'' (Some 0) =
     ((200, MessageBody ''Product deleted due to quantity being 0''), []) \<and>
   get_food_id hexObjectId [] ''507f1f77bcf86cd799439011'' = (404, ErrorBody ''Product not found'')"
proof -
  note h1 = hexObjectId_sample
  have h2: "findOne [milk_1L] ''507f1f77bcf86cd799439011'' = Some milk_1L"
    by (simp add: findOne_def milk_1L_def)
  have h3: "distinct (map doc_id [milk_1L])" by simp
  have "remove1 milk_1L [milk_1L] = []" by simp
  with put_zero_deletes [of hexObjectId "''507f1f77bcf86cd799439011''" _ "[milk_1L]", OF h1 h2 h3]
    h1 h2 h3
  show ?thesis by metis
qed

text \<open>
  C7. A PUT request with a negative quantity answers 400 whatever the
  identifier and the collection are, and the collection is left as it was.
\<close>

theorem put_negative_rejected:
  "r < 0 \<Longrightarrow>
     put_food_update_id new_ObjectId collection id' (Some r) =
       ((400, ErrorBody ''Quantity cannot be negative''), collection)"
  by (simp add: put_food_update_id_def lt_zero_def)

theorem put_negative_rejected_witness:
  "(-1 :: real) < 0 \<and>
   put_food_update_id hexObjectId [milk_1L] ''507f1f77bcf86cd799439011'' (Some (-1)) =
     ((400, ErrorBody ''Quantity cannot be negative''), [milk_1L])"
proof -
  have h: "(-1 :: real) < 0" by simp
  from put_negative_rejected [OF h] h show ?thesis by blast
qed

text \<open>
  C10, as amended. A PUT request whose body has no quantity, for a record that
  the collection holds: neither test rejects the absent value, the answer is
  200 with the message of an update, and the stored quantity of the record is
  overwritten with \<^verbatim>\<open>null\<close>, which is how the absent value given to
  \<^verbatim>\<open>$set\<close> is written; the quantity stored before is lost, and the rest of
  the collection is as it was.
\<close>

theorem put_absent_quantity_stores_null:
  assumes "new_ObjectId id' = Some oid"
    and "findOne collection oid = Some item"
  shows "\<exists>pre post. collection = pre @ item # post \<and> findOne pre oid = None \<and>
           put_food_update_id new_ObjectId collection id' None =
             ((200, MessageBody ''Product quantity updated''),
              pre @ item\<lparr>quantity := JNull\<rparr> # post)"
proof -
  from findOne_Some [OF assms(2)] obtain pre post where
    c: "collection = pre @ item # post" and pre: "findOne pre oid = None" and oid: "doc_id item = oid"
    by blast
  have "put_food_update_id new_ObjectId collection id' None =
          ((200, MessageBody ''Product quantity updated''),
           pre @ item\<lparr>quantity := JNull\<rparr> # post)"
    by (simp add: put_food_update_id_def lt_zero_def is_zero_def js_of_def assms(1) c
        updateOne_append [OF pre oid])
  with c pre show ?thesis by blast
qed

theorem put_absent_quantity_stores_null_witness:
  "hexObjectId ''507f1f77bcf86cd799439011'' = Some ''507f1f77bcf86cd799439011'' \<and>
   findOne [milk_1L] ''507f1f77bcf86cd799439011'' = Some milk_1L \<and>
   quantity milk_1L = JStr ''1L'' \<and>
   put_food_update_id hexObjectId [milk_1L] ''507f1f77bcf86cd799439011'' None =
     ((200, MessageBody ''Product quantity updated''), [milk_1L\<lparr>quantity := JNull\<rparr>])"
proof -
  note h1 = hexObjectId_sample
  have h2: "findOne [milk_1L] ''507f1f77bcf86cd799439011'' = Some milk_1L"
    by (simp add: findOne_def milk_1L_def)
  have q: "quantity milk_1L = JStr ''1L''" by (simp add: milk_1L_def)
  from put_absent_quantity_stores_null
         [of hexObjectId "''507f1f77bcf86cd799439011''" _ "[milk_1L]", OF h1 h2]
  obtain pre post where
    c: "[milk_1L] = pre @ milk_1L # post" and
    r: "put_food_update_id hexObjectId [milk_1L] ''507f1f77bcf86cd799439011'' None =
       ((200, MessageBody ''Product quantity updated''),
        pre @ milk_1L\<lparr>quantity := JNull\<rparr> # post)"
    by blast
  from c have "pre = [] \<and> post = []"
    by (cases pre) auto
  with r h1 h2 q show ?thesis by simp
qed

text \<open>
  C10 as stated fails: after the PUT request without a quantity on the
  collection of the single record \<open>milk_1L\<close>, the quantity that the record
  holds is \<^verbatim>\<open>null\<close>, with the key present, and not the absent value.
\<close>

theorem put_absent_quantity_counterexample:
  "map quantity
     (snd (put_food_update_id hexObjectId [milk_1L] ''507f1f77bcf86cd799439011'' None)) =
     [JNull] \<and>
   map quantity
     (snd (put_food_update_id hexObjectId [milk_1L] ''507f1f77bcf86cd799439011'' None)) \<noteq>
     [JUndefined]"
  by (simp add: put_food_update_id_def lt_zero_def is_zero_def js_of_def hexObjectId_sample
      milk_1L_def)

subsection \<open>Updating an expiry date\<close>

text \<open>
  C9. When the PATCH request answers 200, the identifier names a record of the
  collection, and the collection left is the old one with that record's
  \<open>expiryDate\<close> set to the value of the request: the other fields of the
  record and all other records are as they were.
\<close>

theorem patch_changes_only_expiryDate:
  assumes "patch_food_update_id new_ObjectId collection id' v = ((200, b), collection')"
  shows "\<exists>oid pre item post.
           new_ObjectId id' = Some oid \<and> findOne collection oid = Some item \<and>
           collection = pre @ item # post \<and>
           collection' = pre @ item\<lparr>expiryDate := v\<rparr> # post"
proof -
  from assms obtain oid where n: "new_ObjectId id' = Some oid"
    by (auto simp: patch_food_update_id_def split: if_splits option.splits prod.splits)
  show ?thesis
  proof (cases "findOne collection oid")
    case None
    with assms n show ?thesis
      by (simp add: patch_food_update_id_def updateOne_missing split: if_splits)
  next
    case (Some item)
    from findOne_Some [OF this] obtain pre post where
      c: "collection = pre @ item # post" and pre: "findOne pre oid = None"
      and oid: "doc_id item = oid"
      by blast
    from assms have "truthy v"
      by (auto simp: patch_food_update_id_def split: if_splits)
    then have v: "bson v = v" by (cases v) auto
    from assms n have "collection' = pre @ item\<lparr>expiryDate := v\<rparr> # post"
      by (simp add: patch_food_update_id_def c updateOne_append [OF pre oid] v split: if_splits)
    with n Some c show ?thesis by blast
  qed
qed

theorem patch_changes_only_expiryDate_witness:
  "patch_food_update_id hexObjectId [milk_1L] ''507f1f77bcf86cd799439011'' (JStr ''2026-12-31'') =
     ((200, MessageBody ''Expiry date updated successfully''),
      [milk_1L\<lparr>expiryDate := JStr ''2026-12-31''\<rparr>]) \<and>
   (\<exists>oid pre item post.
      hexObjectId ''507f1f77bcf86cd799439011'' = Some oid \<and> findOne [milk_1L] oid = Some item \<and>
      [milk_1L] = pre @ item # post \<and>
      [milk_1L\<lparr>expiryDate := JStr ''2026-12-31''\<rparr>] =
        pre @ item\<lparr>expiryDate := JStr ''2026-12-31''\<rparr> # post)"
proof -
  have h: "patch_food_update_id hexObjectId [milk_1L] ''507f1f77bcf86cd799439011''
             (JStr ''2026-12-31'') =
     ((200, MessageBody ''Expiry date updated successfully''),
      [milk_1L\<lparr>expiryDate := JStr ''2026-12-31''\<rparr>])"
    by (simp add: patch_food_update_id_def hexObjectId_sample milk_1L_def)
  from patch_changes_only_expiryDate [OF h] h show ?thesis by blast
qed

end
